theory Spec2Isabelle
  imports Complex_Main
begin

section \<open>Values, errors and the validated input models\<close>

text \<open>
  The converter of \<^verbatim>\<open>shapefile_to_h3_converter.py\<close> does no arithmetic of its own on
  coordinate values: it stores them, hands them to the geometry and the H3 libraries and
  writes them out. A Python float is modelled as a real number.

  Every exception of the source is a value of \<open>error\<close>; a function that can raise returns
  \<open>error + 'a\<close>, with \<open>Inl\<close> for the exception.
\<close>

type_synonym float = real

datatype error =
    ValidationError "string list"
  | GEOSException
  | IndexError
  | OSError string
  | LibraryError string

text \<open>
  \<^verbatim>\<open>class InputParams(BaseModel)\<close>: four paths declared with \<^verbatim>\<open>min_length=1\<close> and a
  resolution declared with \<^verbatim>\<open>ge=0, le=15\<close>. Constructing the model checks every field
  and raises one \<open>ValidationError\<close> that lists the fields that failed, in declaration
  order.
\<close>

record InputParams =
  shapefile_filepath :: string
  output_filepath_geojson :: string
  output_filepath_geojson_segmentized :: string
  h3_resolution :: int
  output_filepath_h3_hexagons :: string

definition failed_fields :: "(string \<times> bool) list \<Rightarrow> string list" where
  "failed_fields checks = map fst (filter (\<lambda>(field, ok). \<not> ok) checks)"

definition InputParams_init :: "InputParams \<Rightarrow> error + InputParams" where
  "InputParams_init kw =
     (let errs = failed_fields
        [(''shapefile_filepath'', 1 \<le> length (shapefile_filepath kw)),
         (''output_filepath_geojson'', 1 \<le> length (output_filepath_geojson kw)),
         (''output_filepath_geojson_segmentized'',
            1 \<le> length (output_filepath_geojson_segmentized kw)),
         (''h3_resolution'', 0 \<le> h3_resolution kw \<and> h3_resolution kw \<le> 15),
         (''output_filepath_h3_hexagons'', 1 \<le> length (output_filepath_h3_hexagons kw))]
      in if errs = [] then Inr kw else Inl (ValidationError errs))"

datatype PropertyClass = principal_road | dual_carriageway

datatype FeatureGeometryType = LineString

record Properties =
  id_t1 :: float
  road_name :: string
  road_class :: "PropertyClass option"
  nrn :: "string option"

text \<open>
  \<^verbatim>\<open>class Coordinate(RootModel)\<close> with
  \<^verbatim>\<open>root: List[float] = Field(..., min_length=2, max_length=2, min=0, max=180)\<close>.
  The constraints that \<^verbatim>\<open>Field\<close> validates are the length bounds
  \<^verbatim>\<open>min_length\<close>, \<^verbatim>\<open>max_length\<close> and the numeric bounds \<^verbatim>\<open>gt\<close>, \<^verbatim>\<open>ge\<close>,
  \<^verbatim>\<open>lt\<close>, \<^verbatim>\<open>le\<close> (the ones \<^verbatim>\<open>h3_resolution\<close> is declared with). The keywords
  \<^verbatim>\<open>min\<close> and \<^verbatim>\<open>max\<close> are none of these: the validation library keeps unknown
  keywords of \<^verbatim>\<open>Field\<close> as annotations of the JSON schema and they take no part in
  validation. So constructing a Coordinate checks the length of the list and nothing else.
\<close>

datatype Coordinate = Coordinate (root: "float list")

definition Coordinate_init :: "float list \<Rightarrow> error + Coordinate" where
  "Coordinate_init r =
     (if 2 \<le> length r \<and> length r \<le> 2 then Inr (Coordinate r)
      else Inl (ValidationError [''root'']))"

text \<open>
  Of all the objects of the program only a Geometry is ever assigned to after its
  construction (\<^verbatim>\<open>feature.geometry.coordinates = ...\<close> in
  \<^verbatim>\<open>segmentize_geojson_data\<close>). Geometry objects therefore live in a store, and a
  Feature holds the address of its Geometry; Coordinates, Features and the collection
  are never written to and are plain values. Lists are built by \<^verbatim>\<open>append\<close> on a
  fresh local list and never changed once they are stored.
\<close>

type_synonym addr = nat

record Geometry =
  geometry_type :: FeatureGeometryType
  coordinates :: "Coordinate list"

type_synonym heap = "addr \<Rightarrow> Geometry"

record Feature =
  feature_id :: string
  feature_type :: string
  properties :: Properties
  geometry :: addr

record CrsProperties =
  crs_name :: string

record Crs =
  crs_type :: string
  crs_properties :: CrsProperties

record GeoJsonModel =
  model_type :: string
  features :: "Feature list"
  crs :: Crs

section \<open>The external libraries\<close>

text \<open>
  The vector-file reader, the line densifier behind \<^verbatim>\<open>GeoSeries.segmentize\<close>, the H3
  binding, the file system and the iteration order of a Python set are not part of the
  repository. They are the fields of a record that every operation takes as its first
  argument, so that each theorem holds for whatever these libraries compute.
  \<^item> \<open>read_geojson path\<close> stands for \<^verbatim>\<open>geopandas.read_file(path)\<close> followed by
    \<^verbatim>\<open>GeoJsonModel.model_validate_json(... .to_json())\<close>: an error, or the validated
    collection together with the store of its freshly built Geometry objects;
  \<^item> \<open>open_w path\<close> says whether \<^verbatim>\<open>open(path, "w")\<close> succeeds;
  \<^item> \<open>file_of path\<close> is the file that the operating system opens for a path.
    Different strings can name one file (a \<^verbatim>\<open>./\<close> component, a link), and a write
    through one of them replaces what was written through the other. The naming is taken
    as fixed while the constructor runs, and nothing else writes to the files;
  \<^item> \<open>segmentize line max_segment_length\<close> is the densifier on one line, given and
    returned as the sequence of its points;
  \<^item> \<open>latlng_to_cell\<close> and \<open>grid_ring\<close> are the two H3 calls;
  \<^item> \<open>set_iter\<close> is the order in which a set of strings, given by its distinct
    elements, is iterated (it varies with the hash seed of the process).
\<close>

record lib =
  read_geojson :: "string \<Rightarrow> error + (GeoJsonModel \<times> heap)"
  open_w :: "string \<Rightarrow> bool"
  file_of :: "string \<Rightarrow> nat"
  segmentize :: "float list list \<Rightarrow> float \<Rightarrow> error + float list list"
  latlng_to_cell :: "float \<Rightarrow> float \<Rightarrow> int \<Rightarrow> error + string"
  grid_ring :: "string \<Rightarrow> int \<Rightarrow> error + string list"
  set_iter :: "string list \<Rightarrow> string list"

text \<open>
  \<^verbatim>\<open>LineString(coords)\<close>: the geometry library builds a line from no point or from at
  least two points and raises on exactly one. (All coordinates that reach this call were
  validated to two components, so the mixed dimensions that the constructor would also
  reject do not arise and are not modelled.)
\<close>

definition LineString_init :: "float list list \<Rightarrow> error + float list list" where
  "LineString_init coords = (if length coords = 1 then Inl GEOSException else Inr coords)"

section \<open>Segmentation\<close>

text \<open>
  \<^verbatim>\<open>segmentize_linestring\<close>: a one-element GeoSeries is segmentized, then two nested
  loops append \<^verbatim>\<open>Coordinate(root=list(point))\<close> for every point of every resulting
  geometry.
\<close>

fun append_points :: "Coordinate list \<Rightarrow> float list list \<Rightarrow> error + Coordinate list" where
  "append_points acc [] = Inr acc"
| "append_points acc (point # points) =
     (case Coordinate_init point of
        Inl e \<Rightarrow> Inl e
      | Inr c \<Rightarrow> append_points (acc @ [c]) points)"

fun append_segments ::
  "Coordinate list \<Rightarrow> float list list list \<Rightarrow> error + Coordinate list" where
  "append_segments acc [] = Inr acc"
| "append_segments acc (segment # segments) =
     (case append_points acc segment of
        Inl e \<Rightarrow> Inl e
      | Inr acc' \<Rightarrow> append_segments acc' segments)"

definition segmentize_linestring ::
  "lib \<Rightarrow> float list list \<Rightarrow> float \<Rightarrow> error + Coordinate list" where
  "segmentize_linestring l linestring max_segment_length =
     (case segmentize l linestring max_segment_length of
        Inl e \<Rightarrow> Inl e
      | Inr segment \<Rightarrow> append_segments [] [segment])"

text \<open>
  \<^verbatim>\<open>segmentize_geojson_data\<close>. \<^verbatim>\<open>data.model_copy()\<close> is called without
  \<^verbatim>\<open>deep=True\<close>: it builds a new collection object whose fields hold the same objects
  as the fields of \<^verbatim>\<open>data\<close>, so \<^verbatim>\<open>data_copy.features\<close> is the list of the very same
  Feature objects, each with the same Geometry object. The loop body reads the Geometry
  of a feature from the store and writes the new coordinate list back to the same
  address; \<^verbatim>\<open>segmentize_linestring\<close> is called with its default
  \<^verbatim>\<open>max_segment_length = 0.001\<close>. An exception leaves the loop with the store as the
  earlier iterations made it. (The \<^verbatim>\<open>print\<close> is not modelled.)
\<close>

definition segmentize_feature :: "lib \<Rightarrow> heap \<Rightarrow> Feature \<Rightarrow> (error + unit) \<times> heap" where
  "segmentize_feature l h feature =
     (let g = h (geometry feature) in
      if geometry_type g = LineString then
        (case LineString_init (map root (coordinates g)) of
           Inl e \<Rightarrow> (Inl e, h)
         | Inr linestring \<Rightarrow>
             (case segmentize_linestring l linestring (1 / 1000) of
                Inl e \<Rightarrow> (Inl e, h)
              | Inr cs \<Rightarrow> (Inr (), h(geometry feature := g\<lparr>coordinates := cs\<rparr>))))
      else (Inr (), h))"

fun segmentize_features :: "lib \<Rightarrow> heap \<Rightarrow> Feature list \<Rightarrow> (error + unit) \<times> heap" where
  "segmentize_features l h [] = (Inr (), h)"
| "segmentize_features l h (feature # rest) =
     (case segmentize_feature l h feature of
        (Inl e, h') \<Rightarrow> (Inl e, h')
      | (Inr u, h') \<Rightarrow> segmentize_features l h' rest)"

definition segmentize_geojson_data ::
  "lib \<Rightarrow> heap \<Rightarrow> GeoJsonModel \<Rightarrow> (error + GeoJsonModel) \<times> heap" where
  "segmentize_geojson_data l h data =
     (let data_copy = data in
      case segmentize_features l h (features data_copy) of
        (Inl e, h') \<Rightarrow> (Inl e, h')
      | (Inr u, h') \<Rightarrow> (Inr data_copy, h'))"

section \<open>Extraction and the cell mapper\<close>

definition extract_coordinates :: "heap \<Rightarrow> GeoJsonModel \<Rightarrow> Coordinate list" where
  "extract_coordinates h data =
     concat (map (\<lambda>feature. coordinates (h (geometry feature))) (features data))"

definition index :: "'a list \<Rightarrow> nat \<Rightarrow> error + 'a" where
  "index xs i = (if i < length xs then Inr (xs ! i) else Inl IndexError)"

text \<open>
  \<^verbatim>\<open>_coordinates_to_h3_hexagons\<close>: the loop appends the cell of every coordinate
  (latitude \<^verbatim>\<open>root[1]\<close> first, longitude \<^verbatim>\<open>root[0]\<close> second) and then its ring at
  distance 1; \<^verbatim>\<open>list(set(hexagons))\<close> removes the repetitions and lists what is left
  in the iteration order of the set.
\<close>

fun hexagons_loop :: "lib \<Rightarrow> int \<Rightarrow> string list \<Rightarrow> Coordinate list \<Rightarrow> error + string list" where
  "hexagons_loop l resolution hexagons [] = Inr hexagons"
| "hexagons_loop l resolution hexagons (coordinate # rest) =
     (case index (root coordinate) 1 of
        Inl e \<Rightarrow> Inl e
      | Inr lat \<Rightarrow>
     (case index (root coordinate) 0 of
        Inl e \<Rightarrow> Inl e
      | Inr lng \<Rightarrow>
     (case latlng_to_cell l lat lng resolution of
        Inl e \<Rightarrow> Inl e
      | Inr cell \<Rightarrow>
     (case grid_ring l cell 1 of
        Inl e \<Rightarrow> Inl e
      | Inr neighbors \<Rightarrow>
          hexagons_loop l resolution (hexagons @ [cell] @ neighbors) rest))))"

definition coordinates_to_h3_hexagons ::
  "lib \<Rightarrow> Coordinate list \<Rightarrow> int \<Rightarrow> error + string list" where
  "coordinates_to_h3_hexagons l coords resolution =
     (case hexagons_loop l resolution [] coords of
        Inl e \<Rightarrow> Inl e
      | Inr hexagons \<Rightarrow> Inr (set_iter l (remdups hexagons)))"

section \<open>The constructor and the script\<close>

text \<open>
  \<^verbatim>\<open>model_dump_json\<close> serialises the collection as it is at the moment of the call:
  the document holds, for every feature, the coordinates its Geometry has in the store
  then. File I/O is recorded as a list of events: the read of the shapefile, every completed write
  with the document written, and every \<^verbatim>\<open>open\<close> that failed.
\<close>

type_synonym geojson_doc =
  "string \<times> (string \<times> string \<times> Properties \<times> FeatureGeometryType \<times> Coordinate list) list \<times> Crs"

datatype io_event = ReadFile string | WriteFile string geojson_doc | OpenFailed string

definition model_dump_json :: "heap \<Rightarrow> GeoJsonModel \<Rightarrow> geojson_doc" where
  "model_dump_json h data =
     (model_type data,
      map (\<lambda>f. (feature_id f, feature_type f, properties f,
                 geometry_type (h (geometry f)), coordinates (h (geometry f))))
          (features data),
      crs data)"

definition write_file ::
  "lib \<Rightarrow> string \<Rightarrow> geojson_doc \<Rightarrow> io_event list \<Rightarrow> (error + unit) \<times> io_event list" where
  "write_file l path doc events =
     (if open_w l path then (Inr (), events @ [WriteFile path doc])
      else (Inl (OSError path), events @ [OpenFailed path]))"

text \<open>
  The content of a file after a list of events: the document of the last write through a
  path that names this file, whatever the string of the path.
\<close>

fun file_content :: "lib \<Rightarrow> io_event list \<Rightarrow> nat \<Rightarrow> geojson_doc option" where
  "file_content l [] file = None"
| "file_content l (ev # evs) file =
     (case file_content l evs file of
        Some doc \<Rightarrow> Some doc
      | None \<Rightarrow>
          (case ev of
             WriteFile p doc \<Rightarrow> if file_of l p = file then Some doc else None
           | ReadFile p \<Rightarrow> None
           | OpenFailed p \<Rightarrow> None))"

text \<open>
  The attributes of a converter (\<^verbatim>\<open>self._input\<close>, ...); the GeoDataFrame
  \<^verbatim>\<open>self._shapefile_data\<close> is only passed on to the validation and is left out. The
  constructor returns the converter with the store as it leaves it, or the exception, and
  in both cases the events of the file I/O it did, in order.
\<close>

record ShapefileToH3Converter =
  self_input :: InputParams
  self_geojson_data :: GeoJsonModel
  self_coordinates :: "Coordinate list"
  self_coordinates_segmentized :: "Coordinate list"
  self_h3_hexagons :: "string list"

definition ShapefileToH3Converter_init ::
  "lib \<Rightarrow> InputParams \<Rightarrow> (error + ShapefileToH3Converter \<times> heap) \<times> io_event list" where
  "ShapefileToH3Converter_init l input_params =
     (let events1 = [ReadFile (shapefile_filepath input_params)] in
      case read_geojson l (shapefile_filepath input_params) of
        Inl e \<Rightarrow> (Inl e, events1)
      | Inr (data, h0) \<Rightarrow>
          (let coords = extract_coordinates h0 data in
           case write_file l (output_filepath_geojson input_params)
                  (model_dump_json h0 data) events1 of
             (Inl e, events2) \<Rightarrow> (Inl e, events2)
           | (Inr u, events2) \<Rightarrow>
               (case segmentize_geojson_data l h0 data of
                  (Inl e, h1) \<Rightarrow> (Inl e, events2)
                | (Inr segmentized, h1) \<Rightarrow>
                    (let coords_segmentized = extract_coordinates h1 segmentized in
                     case write_file l (output_filepath_geojson_segmentized input_params)
                            (model_dump_json h1 segmentized) events2 of
                       (Inl e, events3) \<Rightarrow> (Inl e, events3)
                     | (Inr u', events3) \<Rightarrow>
                         (case coordinates_to_h3_hexagons l coords_segmentized
                                 (h3_resolution input_params) of
                            Inl e \<Rightarrow> (Inl e, events3)
                          | Inr hexagons \<Rightarrow>
                              (Inr (\<lparr>self_input = input_params,
                                     self_geojson_data = data,
                                     self_coordinates = coords,
                                     self_coordinates_segmentized = coords_segmentized,
                                     self_h3_hexagons = hexagons\<rparr>, h1), events3))))))"


section \<open>What is assumed of the libraries\<close>

text \<open>
  Iterating a set yields each of its elements once: whatever the order, listing a set
  given by distinct elements gives distinct elements, and the same ones.
\<close>

definition iterates_each_once :: "(string list \<Rightarrow> string list) \<Rightarrow> bool" where
  "iterates_each_once iter \<longleftrightarrow>
     (\<forall>xs. distinct xs \<longrightarrow> distinct (iter xs) \<and> set (iter xs) = set xs)"

text \<open>A ring at distance 1 has at most six cells (five around a pentagon).\<close>

definition ring_at_most_six :: "lib \<Rightarrow> bool" where
  "ring_at_most_six l \<longleftrightarrow> (\<forall>cell ns. grid_ring l cell 1 = Inr ns \<longrightarrow> length ns \<le> 6)"


text \<open>
  The cell mapper returns when every coordinate has its two components and the two H3
  calls succeed on it (the resolution is valid, the cell has a ring).
\<close>

definition h3_calls_succeed :: "lib \<Rightarrow> int \<Rightarrow> Coordinate list \<Rightarrow> bool" where
  "h3_calls_succeed l r coords \<longleftrightarrow>
     (\<forall>c\<in>set coords. length (root c) = 2 \<and>
        (case latlng_to_cell l (root c ! 1) (root c ! 0) r of
           Inl e \<Rightarrow> False
         | Inr cell \<Rightarrow> \<not> isl (grid_ring l cell 1)))"

section \<open>Concrete inputs\<close>

text \<open>
  The theorems below hold for every library record. To run the model on concrete inputs
  a record is fixed: the reader returns a collection of one LineString feature from
  (0, 0) to (0.0015, 0), every file can be opened, the segmentizer rejects a length that
  is not positive and otherwise halves each segment (the even subdivision of a segment
  that is longer than \<open>max_segment_length\<close> and at most twice as long, as the segment of
  the example is for the default 0.001), the cell of a point is \<open>west\<close> or \<open>east\<close> of
  the meridian 0.001 with a ring of two cells, and a set is iterated in reverse. The
  paths \<^verbatim>\<open>data_out/highways.geojson\<close> and \<^verbatim>\<open>data_out/./highways.geojson\<close> name one
  file, \<^verbatim>\<open>data_out/highways_segmentized.geojson\<close> a second one, any other path a third.
\<close>

definition example_file_of :: "string \<Rightarrow> nat" where
  "example_file_of path =
     (if path = ''data_out/highways.geojson'' then 1
      else if path = ''data_out/./highways.geojson'' then 1
      else if path = ''data_out/highways_segmentized.geojson'' then 2
      else 0)"

fun midpoints :: "float list list \<Rightarrow> float list list" where
  "midpoints (p # q # rest) = p # map2 (\<lambda>a b. (a + b) / 2) p q # midpoints (q # rest)"
| "midpoints ps = ps"

definition example_heap :: heap where
  "example_heap =
     (\<lambda>a. \<lparr>geometry_type = LineString,
            coordinates = [Coordinate [0, 0], Coordinate [3 / 2000, 0]]\<rparr>)"

definition one_point_heap :: heap where
  "one_point_heap =
     (\<lambda>a. \<lparr>geometry_type = LineString, coordinates = [Coordinate [0, 0]]\<rparr>)"

definition example_data :: GeoJsonModel where
  "example_data =
     \<lparr>model_type = ''FeatureCollection'',
      features = [\<lparr>feature_id = ''0'', feature_type = ''Feature'',
                   properties = \<lparr>id_t1 = 1, road_name = ''Hume Highway'',
                                 road_class = Some principal_road, nrn = None\<rparr>,
                   geometry = 0\<rparr>],
      crs = \<lparr>crs_type = ''name'', crs_properties = \<lparr>crs_name = ''EPSG:4283''\<rparr>\<rparr>\<rparr>"

definition example_lib :: lib where
  "example_lib =
     \<lparr>read_geojson = (\<lambda>path. Inr (example_data, example_heap)),
      open_w = (\<lambda>path. True),
      file_of = example_file_of,
      segmentize = (\<lambda>line m. if m \<le> 0 then Inl GEOSException else Inr (midpoints line)),
      latlng_to_cell = (\<lambda>lat lng r. Inr (if lng < 1 / 1000 then ''west'' else ''east'')),
      grid_ring = (\<lambda>cell k. Inr [cell @ ''-a'', cell @ ''-b'']),
      set_iter = rev\<rparr>"

text \<open>
  The parameters of \<^verbatim>\<open>main.py\<close>; the same with one path for both collections; and
  the same with a second path that is another string for the file of the first.
\<close>

definition example_params :: InputParams where
  "example_params =
     \<lparr>shapefile_filepath = ''data_in/National Highways.shp'',
      output_filepath_geojson = ''data_out/highways.geojson'',
      output_filepath_geojson_segmentized = ''data_out/highways_segmentized.geojson'',
      h3_resolution = 8,
      output_filepath_h3_hexagons = ''data_out/h3_hexagons.csv''\<rparr>"

definition same_path_params :: InputParams where
  "same_path_params =
     example_params\<lparr>output_filepath_geojson_segmentized := ''data_out/highways.geojson''\<rparr>"

definition alias_path_params :: InputParams where
  "alias_path_params =
     example_params\<lparr>output_filepath_geojson_segmentized := ''data_out/./highways.geojson''\<rparr>"

text \<open>
  The store after the example line has been segmentized, and the converter that the
  constructor builds from the example collection.
\<close>

definition example_heap_segmentized :: heap where
  "example_heap_segmentized =
     example_heap(0 := \<lparr>geometry_type = LineString,
        coordinates = [Coordinate [0, 0], Coordinate [3 / 4000, 0], Coordinate [3 / 2000, 0]]\<rparr>)"

definition example_converter :: "InputParams \<Rightarrow> ShapefileToH3Converter" where
  "example_converter p =
     \<lparr>self_input = p,
      self_geojson_data = example_data,
      self_coordinates = [Coordinate [0, 0], Coordinate [3 / 2000, 0]],
      self_coordinates_segmentized =
        [Coordinate [0, 0], Coordinate [3 / 4000, 0], Coordinate [3 / 2000, 0]],
      self_h3_hexagons = [''east-b'', ''east-a'', ''east'', ''west-b'', ''west-a'', ''west'']\<rparr>"

section \<open>Properties of validation\<close>

lemma failed_fields_Cons:
  "failed_fields ((field, ok) # rest) =
     (if ok then failed_fields rest else field # failed_fields rest)"
  by (simp add: failed_fields_def)

lemma InputParams_init_valid:
  assumes "shapefile_filepath kw \<noteq> []" "output_filepath_geojson kw \<noteq> []"
    "output_filepath_geojson_segmentized kw \<noteq> []" "output_filepath_h3_hexagons kw \<noteq> []"
    "0 \<le> h3_resolution kw" "h3_resolution kw \<le> 15"
  shows "InputParams_init kw = Inr kw"
proof -
  have "1 \<le> length xs \<longleftrightarrow> xs \<noteq> []" for xs :: string
    by (cases xs) simp_all
  with assms show ?thesis
    by (simp add: InputParams_init_def failed_fields_Cons failed_fields_def)
qed

lemma Coordinate_init_iff_length:
  "(\<exists>c. Coordinate_init r = Inr c) \<longleftrightarrow> length r = 2"
  by (auto simp: Coordinate_init_def)

text \<open>
  C3. The claim: constructing a Coordinate from a list of two floats succeeds if and only
  if both components lie in [0, 180]. The code accepts every list of two floats (lemma
  \<open>Coordinate_init_iff_length\<close>): here a point of Sydney, longitude 151.2 and latitude
  -33.8, is accepted although its latitude is below the declared minimum 0.
\<close>

theorem Coordinate_init_accepts_out_of_bound:
  "Coordinate_init [1512 / 10, - 338 / 10] = Inr (Coordinate [1512 / 10, - 338 / 10])"
  by (simp add: Coordinate_init_def)






section \<open>Properties of segmentation\<close>

text \<open>
  What \<^verbatim>\<open>segmentize_linestring\<close> adds to the library call: it wraps the points that the
  densifier returns as Coordinates, one for one and in order. The number of the points,
  their spacing and their distances are the densifier's.
\<close>

lemma append_points_Inr:
  "append_points acc points = Inr cs \<Longrightarrow> map root cs = map root acc @ points"
proof (induction points arbitrary: acc)
  case Nil
  then show ?case by simp
next
  case (Cons point points)
  from Cons.prems obtain c where c: "Coordinate_init point = Inr c"
    and rest: "append_points (acc @ [c]) points = Inr cs"
    by (auto split: sum.splits)
  from c have "root c = point" by (auto simp: Coordinate_init_def split: if_splits)
  with Cons.IH[OF rest] show ?case by simp
qed

lemma segmentize_linestring_points:
  "segmentize_linestring l linestring m = Inr cs \<Longrightarrow>
   segmentize l linestring m = Inr (map root cs)"
  by (auto simp: segmentize_linestring_def split: sum.splits dest: append_points_Inr)

lemma geometry_type_LineString: "geometry_type g = LineString"
  by (cases "geometry_type g") simp

lemma segmentize_feature_one_point:
  "length (coordinates (h (geometry f))) = 1 \<Longrightarrow>
   segmentize_feature l h f = (Inl GEOSException, h)"
  by (simp add: segmentize_feature_def LineString_init_def geometry_type_LineString Let_def)

lemma segmentize_feature_frame:
  "segmentize_feature l h f = (res, h') \<Longrightarrow> a \<noteq> geometry f \<Longrightarrow> h' a = h a"
  by (auto simp: segmentize_feature_def Let_def split: sum.splits if_splits)

lemma segmentize_features_one_point:
  "f \<in> set fs \<Longrightarrow> length (coordinates (h (geometry f))) = 1 \<Longrightarrow>
   \<exists>e h'. segmentize_features l h fs = (Inl e, h')"
proof (induction fs arbitrary: h)
  case Nil
  then show ?case by simp
next
  case (Cons g fs)
  obtain res h1 where step: "segmentize_feature l h g = (res, h1)"
    by (cases "segmentize_feature l h g")
  show ?case
  proof (cases res)
    case (Inl e)
    with step show ?thesis by simp
  next
    case (Inr u)
    have ne: "geometry f \<noteq> geometry g"
    proof
      assume "geometry f = geometry g"
      with Cons.prems(2) have "segmentize_feature l h g = (Inl GEOSException, h)"
        by (simp add: segmentize_feature_one_point)
      with step Inr show False by simp
    qed
    with Cons.prems(1) have "f \<in> set fs" by auto
    moreover from segmentize_feature_frame[OF step ne] Cons.prems(2)
    have "length (coordinates (h1 (geometry f))) = 1" by simp
    ultimately have "\<exists>e h'. segmentize_features l h1 fs = (Inl e, h')" by (rule Cons.IH)
    with step Inr show ?thesis by simp
  qed
qed

lemma segmentize_example:
  "segmentize_geojson_data example_lib example_heap example_data =
     (Inr example_data, example_heap_segmentized)"
  by (simp add: segmentize_geojson_data_def segmentize_feature_def example_lib_def
      example_heap_def example_data_def LineString_init_def segmentize_linestring_def
      Coordinate_init_def example_heap_segmentized_def)

lemma segmentize_one_point_example:
  "segmentize_geojson_data example_lib one_point_heap example_data =
     (Inl GEOSException, one_point_heap)"
  by (simp add: segmentize_geojson_data_def segmentize_feature_def one_point_heap_def
      example_data_def LineString_init_def)

text \<open>
  C2. The claim: \<^verbatim>\<open>segmentize_geojson_data\<close> leaves the input collection unchanged,
  every feature of it keeps its coordinates. The code: the collection returned is made of
  the Feature and Geometry objects of the input, and the assignment to
  \<^verbatim>\<open>feature.geometry.coordinates\<close> writes to them. On the collection of one line from
  (0, 0) to (0.0015, 0), whose Geometry is at address 0, the Geometry of the input has
  two points before the call and three after it.
\<close>

theorem segmentize_geojson_data_rewrites_input:
  "fst (segmentize_geojson_data example_lib example_heap example_data) = Inr example_data \<and>
   map geometry (features example_data) = [0] \<and>
   coordinates (example_heap 0) = [Coordinate [0, 0], Coordinate [3 / 2000, 0]] \<and>
   coordinates (snd (segmentize_geojson_data example_lib example_heap example_data) 0) =
     [Coordinate [0, 0], Coordinate [3 / 4000, 0], Coordinate [3 / 2000, 0]]"
  by (simp add: segmentize_example)
     (simp add: example_data_def example_heap_def example_heap_segmentized_def)

text \<open>
  C7 as amended. The claim: a line geometry of one point passes through segmentization
  unchanged. What holds: segmentization of a collection that has a feature whose
  geometry is a single point does not return a collection, it ends in an exception
  (building the \<^verbatim>\<open>LineString\<close> from one coordinate raises).
\<close>

theorem one_point_geometry_fails:
  assumes "f \<in> set (features data)" and "length (coordinates (h (geometry f))) = 1"
  shows "\<exists>e h'. segmentize_geojson_data l h data = (Inl e, h')"
proof -
  from assms have "\<exists>e h'. segmentize_features l h (features data) = (Inl e, h')"
    by (rule segmentize_features_one_point)
  then obtain e h' where "segmentize_features l h (features data) = (Inl e, h')" by blast
  then show ?thesis by (simp add: segmentize_geojson_data_def)
qed

theorem one_point_geometry_fails_witness:
  "hd (features example_data) \<in> set (features example_data) \<and>
   length (coordinates (one_point_heap (geometry (hd (features example_data))))) = 1 \<and>
   (\<exists>e h'. segmentize_geojson_data example_lib one_point_heap example_data = (Inl e, h'))"
proof -
  have m: "hd (features example_data) \<in> set (features example_data)"
    by (simp add: example_data_def)
  have n: "length (coordinates (one_point_heap (geometry (hd (features example_data))))) = 1"
    by (simp add: one_point_heap_def)
  from m n
  have "\<exists>e h'. segmentize_geojson_data example_lib one_point_heap example_data = (Inl e, h')"
    by (rule one_point_geometry_fails)
  with m n show ?thesis by blast
qed

text \<open>
  The claim C7 as it is written fails on the collection whose one geometry is the single
  point (0, 0): the call ends in the exception of the \<^verbatim>\<open>LineString\<close> constructor and
  returns no collection.
\<close>

theorem one_point_geometry_not_passed_through:
  "coordinates (one_point_heap 0) = [Coordinate [0, 0]] \<and>
   LineString_init (map root (coordinates (one_point_heap 0))) = Inl GEOSException \<and>
   fst (segmentize_geojson_data example_lib one_point_heap example_data) = Inl GEOSException \<and>
   fst (segmentize_geojson_data example_lib one_point_heap example_data) \<noteq> Inr example_data"
  by (simp add: segmentize_one_point_example) (simp add: one_point_heap_def LineString_init_def)

section \<open>Properties of the cell mapper\<close>

lemma h3_calls_succeedD:
  assumes "h3_calls_succeed l r cs" and "c \<in> set cs"
  shows "length (root c) = 2"
    and "\<exists>cell ns. latlng_to_cell l (root c ! 1) (root c ! 0) r = Inr cell \<and>
           grid_ring l cell 1 = Inr ns"
proof -
  from assms have len: "length (root c) = 2"
    and ok: "(case latlng_to_cell l (root c ! 1) (root c ! 0) r of
                Inl e \<Rightarrow> False
              | Inr cell \<Rightarrow> \<not> isl (grid_ring l cell 1))"
    unfolding h3_calls_succeed_def by blast+
  show "length (root c) = 2" by (rule len)
  from ok obtain cell where cell: "latlng_to_cell l (root c ! 1) (root c ! 0) r = Inr cell"
    and ring: "\<not> isl (grid_ring l cell 1)"
    by (cases "latlng_to_cell l (root c ! 1) (root c ! 0) r") auto
  from ring obtain ns where "grid_ring l cell 1 = Inr ns"
    by (cases "grid_ring l cell 1") auto
  with cell show "\<exists>cell ns. latlng_to_cell l (root c ! 1) (root c ! 0) r = Inr cell \<and>
           grid_ring l cell 1 = Inr ns" by blast
qed

lemma hexagons_loop_returns:
  "h3_calls_succeed l r cs \<Longrightarrow> \<exists>out. hexagons_loop l r acc cs = Inr out"
proof (induction cs arbitrary: acc)
  case Nil
  then show ?case by simp
next
  case (Cons c cs)
  from h3_calls_succeedD[OF Cons.prems, of c] obtain cell ns where c: "length (root c) = 2"
    "latlng_to_cell l (root c ! 1) (root c ! 0) r = Inr cell" "grid_ring l cell 1 = Inr ns"
    by auto
  from Cons.prems have "h3_calls_succeed l r cs" by (simp add: h3_calls_succeed_def)
  from Cons.IH[OF this] show ?case using c by (simp add: index_def)
qed

lemma coordinates_to_h3_hexagons_returns:
  "h3_calls_succeed l r cs \<Longrightarrow> \<exists>out. coordinates_to_h3_hexagons l cs r = Inr out"
  using hexagons_loop_returns[of l r cs "[]"] by (auto simp: coordinates_to_h3_hexagons_def)

lemma hexagons_loop_step:
  assumes "hexagons_loop l r acc (c # cs) = Inr out"
  obtains cell ns where "1 < length (root c)"
    "latlng_to_cell l (root c ! 1) (root c ! 0) r = Inr cell" "grid_ring l cell 1 = Inr ns"
    "hexagons_loop l r (acc @ [cell] @ ns) cs = Inr out"
  using assms by (auto simp: index_def split: sum.splits if_splits)

lemma hexagons_loop_acc:
  "hexagons_loop l r acc cs = Inr out \<Longrightarrow> set acc \<subseteq> set out"
proof (induction cs arbitrary: acc)
  case Nil
  then show ?case by simp
next
  case (Cons c cs)
  from Cons.prems obtain cell ns where "hexagons_loop l r (acc @ [cell] @ ns) cs = Inr out"
    by (rule hexagons_loop_step)
  from Cons.IH[OF this] show ?case by simp
qed

lemma hexagons_loop_cell:
  "hexagons_loop l r acc cs = Inr out \<Longrightarrow> c \<in> set cs \<Longrightarrow>
   \<exists>cell. latlng_to_cell l (root c ! 1) (root c ! 0) r = Inr cell \<and> cell \<in> set out"
proof (induction cs arbitrary: acc)
  case Nil
  then show ?case by simp
next
  case (Cons d cs)
  from Cons.prems(1) obtain cell ns where
    cell: "latlng_to_cell l (root d ! 1) (root d ! 0) r = Inr cell"
    and rec: "hexagons_loop l r (acc @ [cell] @ ns) cs = Inr out"
    by (rule hexagons_loop_step)
  show ?case
  proof (cases "c = d")
    case True
    from hexagons_loop_acc[OF rec] have "cell \<in> set out" by simp
    with cell True show ?thesis by blast
  next
    case False
    with Cons.prems(2) have "c \<in> set cs" by simp
    from Cons.IH[OF rec this] show ?thesis .
  qed
qed

lemma hexagons_loop_length:
  "hexagons_loop l r acc cs = Inr out \<Longrightarrow> ring_at_most_six l \<Longrightarrow>
   length out \<le> length acc + 7 * length cs"
proof (induction cs arbitrary: acc)
  case Nil
  then show ?case by simp
next
  case (Cons c cs)
  from Cons.prems(1) obtain cell ns where ns: "grid_ring l cell 1 = Inr ns"
    and rec: "hexagons_loop l r (acc @ [cell] @ ns) cs = Inr out"
    by (rule hexagons_loop_step)
  from Cons.prems(2) ns have "length ns \<le> 6" unfolding ring_at_most_six_def by blast
  moreover from Cons.IH[OF rec Cons.prems(2)]
  have "length out \<le> length (acc @ [cell] @ ns) + 7 * length cs" .
  ultimately show ?case by simp
qed

lemma hexagons_loop_set_iter:
  "hexagons_loop (l\<lparr>set_iter := order\<rparr>) r acc cs = hexagons_loop l r acc cs"
  by (induction cs arbitrary: acc) (auto split: sum.splits)

lemma coordinates_to_h3_hexagons_Inr:
  assumes "coordinates_to_h3_hexagons l coords r = Inr out"
  obtains hexagons where "hexagons_loop l r [] coords = Inr hexagons"
    "out = set_iter l (remdups hexagons)"
  using assms by (auto simp: coordinates_to_h3_hexagons_def split: sum.splits)

lemma iterates_each_onceD:
  "iterates_each_once iter \<Longrightarrow>
   distinct (iter (remdups xs)) \<and> set (iter (remdups xs)) = set xs"
  by (simp add: iterates_each_once_def)

text \<open>Whenever the mapper returns a list, the cell of every coordinate is in it.\<close>

lemma coordinates_to_h3_hexagons_member:
  assumes out: "coordinates_to_h3_hexagons l coords r = Inr out"
    and iter: "iterates_each_once (set_iter l)"
    and c: "c \<in> set coords"
  shows "\<exists>cell. latlng_to_cell l (root c ! 1) (root c ! 0) r = Inr cell \<and> cell \<in> set out"
proof -
  from out obtain hexagons where loop: "hexagons_loop l r [] coords = Inr hexagons"
    and eq: "out = set_iter l (remdups hexagons)"
    by (rule coordinates_to_h3_hexagons_Inr)
  from iterates_each_onceD[OF iter] eq have "set out = set hexagons" by simp
  with hexagons_loop_cell[OF loop c] show ?thesis by simp
qed

text \<open>Whenever the mapper returns a list, it has no repetition and at most 7 cells per
  coordinate.\<close>

lemma coordinates_to_h3_hexagons_distinct_length:
  assumes out: "coordinates_to_h3_hexagons l coords r = Inr out"
    and iter: "iterates_each_once (set_iter l)"
    and ring: "ring_at_most_six l"
  shows "distinct out \<and> length out \<le> 7 * length coords"
proof -
  from out obtain hexagons where loop: "hexagons_loop l r [] coords = Inr hexagons"
    and eq: "out = set_iter l (remdups hexagons)"
    by (rule coordinates_to_h3_hexagons_Inr)
  from iterates_each_onceD[OF iter] eq
  have d: "distinct out" and s: "set out = set hexagons" by simp_all
  have "length out = card (set out)" using d by (simp add: distinct_card)
  also have "\<dots> = length (remdups hexagons)" using s by (simp add: length_remdups_card_conv)
  also have "\<dots> \<le> length hexagons" by (rule length_remdups_leq)
  also have "\<dots> \<le> 7 * length coords" using hexagons_loop_length[OF loop ring] by simp
  finally show ?thesis using d by simp
qed

lemma example_hexagons:
  "coordinates_to_h3_hexagons example_lib [Coordinate [0, 0], Coordinate [3 / 2000, 0]] 8 =
     Inr [''east-b'', ''east-a'', ''east'', ''west-b'', ''west-a'', ''west'']"
  by (simp add: coordinates_to_h3_hexagons_def index_def example_lib_def)

lemma example_h3_calls_succeed:
  "h3_calls_succeed example_lib 8 [Coordinate [0, 0], Coordinate [3 / 2000, 0]]"
  by (simp add: h3_calls_succeed_def example_lib_def)

lemma example_iterates_each_once: "iterates_each_once (set_iter example_lib)"
  by (simp add: iterates_each_once_def example_lib_def)

lemma example_ring_at_most_six: "ring_at_most_six example_lib"
  by (auto simp: ring_at_most_six_def example_lib_def)

text \<open>
  C4. For coordinates of two components and a resolution on which the H3 calls succeed,
  the mapper returns a list, and for every coordinate \<open>c\<close> of the input the cell of \<open>c\<close>
  at that resolution (latitude \<open>root c ! 1\<close>, longitude \<open>root c ! 0\<close>) is a member of it.
\<close>

theorem coordinates_to_h3_hexagons_covers:
  assumes ok: "h3_calls_succeed l r coords"
    and iter: "iterates_each_once (set_iter l)"
  shows "\<exists>out. coordinates_to_h3_hexagons l coords r = Inr out \<and>
           (\<forall>c\<in>set coords.
              \<exists>cell. latlng_to_cell l (root c ! 1) (root c ! 0) r = Inr cell \<and> cell \<in> set out)"
proof -
  from coordinates_to_h3_hexagons_returns[OF ok] obtain out where
    out: "coordinates_to_h3_hexagons l coords r = Inr out" by blast
  from coordinates_to_h3_hexagons_member[OF out iter] out show ?thesis by blast
qed

theorem coordinates_to_h3_hexagons_covers_witness:
  "h3_calls_succeed example_lib 8 [Coordinate [0, 0], Coordinate [3 / 2000, 0]] \<and>
   iterates_each_once (set_iter example_lib) \<and>
   coordinates_to_h3_hexagons example_lib [Coordinate [0, 0], Coordinate [3 / 2000, 0]] 8 =
     Inr [''east-b'', ''east-a'', ''east'', ''west-b'', ''west-a'', ''west''] \<and>
   latlng_to_cell example_lib 0 0 8 = Inr ''west'' \<and>
   latlng_to_cell example_lib 0 (3 / 2000) 8 = Inr ''east'' \<and>
   (\<exists>out. coordinates_to_h3_hexagons example_lib
             [Coordinate [0, 0], Coordinate [3 / 2000, 0]] 8 = Inr out \<and>
          ''west'' \<in> set out \<and> ''east'' \<in> set out)"
proof -
  from coordinates_to_h3_hexagons_covers[OF example_h3_calls_succeed example_iterates_each_once]
  obtain out where
    out: "coordinates_to_h3_hexagons example_lib
            [Coordinate [0, 0], Coordinate [3 / 2000, 0]] 8 = Inr out"
    and cells: "\<forall>c\<in>set [Coordinate [0, 0], Coordinate [3 / 2000, 0]].
       \<exists>cell. latlng_to_cell example_lib (root c ! 1) (root c ! 0) 8 = Inr cell \<and> cell \<in> set out"
    by blast
  have west: "latlng_to_cell example_lib 0 0 8 = Inr ''west''"
    and east: "latlng_to_cell example_lib 0 (3 / 2000) 8 = Inr ''east''"
    by (simp_all add: example_lib_def)
  from cells west east have "''west'' \<in> set out \<and> ''east'' \<in> set out" by simp
  with out west east example_h3_calls_succeed example_iterates_each_once example_hexagons
  show ?thesis by blast
qed

text \<open>
  C5. Under the same conditions, and with rings of at most six cells, the list returned
  has no repeated cell identifier and its length is at most 7 times the number of the
  input coordinates.
\<close>

theorem coordinates_to_h3_hexagons_distinct_bounded:
  assumes ok: "h3_calls_succeed l r coords"
    and iter: "iterates_each_once (set_iter l)"
    and ring: "ring_at_most_six l"
  shows "\<exists>out. coordinates_to_h3_hexagons l coords r = Inr out \<and>
           distinct out \<and> length out \<le> 7 * length coords"
proof -
  from coordinates_to_h3_hexagons_returns[OF ok] obtain out where
    out: "coordinates_to_h3_hexagons l coords r = Inr out" by blast
  from coordinates_to_h3_hexagons_distinct_length[OF out iter ring] out show ?thesis by blast
qed

theorem coordinates_to_h3_hexagons_distinct_bounded_witness:
  "h3_calls_succeed example_lib 8 [Coordinate [0, 0], Coordinate [3 / 2000, 0]] \<and>
   iterates_each_once (set_iter example_lib) \<and> ring_at_most_six example_lib \<and>
   coordinates_to_h3_hexagons example_lib [Coordinate [0, 0], Coordinate [3 / 2000, 0]] 8 =
     Inr [''east-b'', ''east-a'', ''east'', ''west-b'', ''west-a'', ''west''] \<and>
   distinct [''east-b'', ''east-a'', ''east'', ''west-b'', ''west-a'', ''west''] \<and>
   length [''east-b'', ''east-a'', ''east'', ''west-b'', ''west-a'', ''west''] \<le>
     7 * length [Coordinate [0, 0], Coordinate [3 / 2000, 0]]"
proof -
  from coordinates_to_h3_hexagons_distinct_bounded
         [OF example_h3_calls_succeed example_iterates_each_once example_ring_at_most_six]
  have "distinct [''east-b'', ''east-a'', ''east'', ''west-b'', ''west-a'', ''west''] \<and>
   length [''east-b'', ''east-a'', ''east'', ''west-b'', ''west-a'', ''west''] \<le>
     7 * length [Coordinate [0, 0], Coordinate [3 / 2000, 0]]"
    unfolding example_hexagons by blast
  with example_h3_calls_succeed example_iterates_each_once example_ring_at_most_six
    example_hexagons
  show ?thesis by blast
qed

text \<open>
  C9. Two calls of the mapper on the same coordinates and resolution differ at most in
  the order in which the set is iterated, \<open>set_iter l\<close> in one call and \<open>order\<close> in the
  other: both raise the same exception, or both return and the two lists are equal as
  sets.
\<close>

theorem coordinates_to_h3_hexagons_same_set:
  assumes "iterates_each_once (set_iter l)" and "iterates_each_once order"
  shows "map_sum (\<lambda>e. e) set (coordinates_to_h3_hexagons l coords r) =
         map_sum (\<lambda>e. e) set (coordinates_to_h3_hexagons (l\<lparr>set_iter := order\<rparr>) coords r)"
  using iterates_each_onceD[OF assms(1)] iterates_each_onceD[OF assms(2)]
  by (simp add: coordinates_to_h3_hexagons_def hexagons_loop_set_iter split: sum.splits)

theorem coordinates_to_h3_hexagons_same_set_witness:
  "iterates_each_once (set_iter example_lib) \<and> iterates_each_once (\<lambda>xs. xs) \<and>
   coordinates_to_h3_hexagons example_lib [Coordinate [0, 0], Coordinate [3 / 2000, 0]] 8 =
     Inr [''east-b'', ''east-a'', ''east'', ''west-b'', ''west-a'', ''west''] \<and>
   coordinates_to_h3_hexagons (example_lib\<lparr>set_iter := \<lambda>xs. xs\<rparr>)
       [Coordinate [0, 0], Coordinate [3 / 2000, 0]] 8 =
     Inr [''west'', ''west-a'', ''west-b'', ''east'', ''east-a'', ''east-b''] \<and>
   set [''east-b'', ''east-a'', ''east'', ''west-b'', ''west-a'', ''west''] =
   set [''west'', ''west-a'', ''west-b'', ''east'', ''east-a'', ''east-b'']"
proof -
  have id: "iterates_each_once (\<lambda>xs. xs)"
    by (simp add: iterates_each_once_def)
  have other: "coordinates_to_h3_hexagons (example_lib\<lparr>set_iter := \<lambda>xs. xs\<rparr>)
       [Coordinate [0, 0], Coordinate [3 / 2000, 0]] 8 =
     Inr [''west'', ''west-a'', ''west-b'', ''east'', ''east-a'', ''east-b'']"
    by (simp add: coordinates_to_h3_hexagons_def index_def example_lib_def)
  from coordinates_to_h3_hexagons_same_set[OF example_iterates_each_once id,
      of "[Coordinate [0, 0], Coordinate [3 / 2000, 0]]" 8]
  have "set [''east-b'', ''east-a'', ''east'', ''west-b'', ''west-a'', ''west''] =
   set [''west'', ''west-a'', ''west-b'', ''east'', ''east-a'', ''east-b'']"
    unfolding example_hexagons other by simp
  with example_iterates_each_once id example_hexagons other show ?thesis by blast
qed

section \<open>Properties of the constructor\<close>

lemma file_content_two_writes:
  "file_content l [ReadFile a, WriteFile p d, WriteFile q d'] file =
     (if file_of l q = file then Some d'
      else if file_of l p = file then Some d else None)"
  by simp

text \<open>
  A constructor that completes has read the shapefile, written the collection as it was
  read and then the collection as it is after segmentation, in this order.
\<close>

lemma ShapefileToH3Converter_init_Inr:
  assumes "ShapefileToH3Converter_init l p = (Inr (c, h), events)"
    and "read_geojson l (shapefile_filepath p) = Inr (data, h0)"
  shows "self_coordinates c = extract_coordinates h0 data"
    and "\<exists>segmentized. segmentize_geojson_data l h0 data = (Inr segmentized, h) \<and>
          events = [ReadFile (shapefile_filepath p),
                    WriteFile (output_filepath_geojson p) (model_dump_json h0 data),
                    WriteFile (output_filepath_geojson_segmentized p)
                      (model_dump_json h segmentized)]"
  using assms
  by (auto simp: ShapefileToH3Converter_init_def write_file_def Let_def
      split: sum.splits prod.splits if_splits)

lemma example_hexagons_segmentized:
  "coordinates_to_h3_hexagons example_lib
     [Coordinate [0, 0], Coordinate [3 / 4000, 0], Coordinate [3 / 2000, 0]] r =
     Inr [''east-b'', ''east-a'', ''east'', ''west-b'', ''west-a'', ''west'']"
  by (simp add: coordinates_to_h3_hexagons_def index_def example_lib_def)

lemma example_lib_fields:
  "read_geojson example_lib path = Inr (example_data, example_heap)"
  "open_w example_lib path"
  by (simp_all add: example_lib_def)

lemma example_extract:
  "extract_coordinates example_heap example_data = [Coordinate [0, 0], Coordinate [3 / 2000, 0]]"
  "extract_coordinates example_heap_segmentized example_data =
     [Coordinate [0, 0], Coordinate [3 / 4000, 0], Coordinate [3 / 2000, 0]]"
  by (simp_all add: extract_coordinates_def example_data_def example_heap_def
      example_heap_segmentized_def)

lemma init_example:
  "ShapefileToH3Converter_init example_lib p =
     (Inr (example_converter p, example_heap_segmentized),
      [ReadFile (shapefile_filepath p),
       WriteFile (output_filepath_geojson p) (model_dump_json example_heap example_data),
       WriteFile (output_filepath_geojson_segmentized p)
         (model_dump_json example_heap_segmentized example_data)])"
  by (simp add: ShapefileToH3Converter_init_def example_lib_fields write_file_def
      segmentize_example example_extract example_hexagons_segmentized example_converter_def)

lemma example_dumps_differ:
  "model_dump_json example_heap_segmentized example_data \<noteq>
   model_dump_json example_heap example_data"
  by (simp add: model_dump_json_def example_data_def example_heap_def
      example_heap_segmentized_def)

lemma example_params_valid: "InputParams_init example_params = Inr example_params"
  by (rule InputParams_init_valid) (simp_all add: example_params_def)

text \<open>
  C10 as amended. The claim: after the constructor completes, the \<open>coordinates\<close>
  property is the extraction of the collection as it was ingested, and the raw GeoJSON
  file holds the serialization from before segmentation. What holds: the property is
  that extraction; the document written through \<open>output_filepath_geojson\<close> is the
  serialization of the collection as ingested; and the file that this path names holds
  this document after the constructor when the two output paths name different files
  (that the two strings differ is not enough).
\<close>

theorem init_keeps_pre_segmentation_outputs:
  assumes "ShapefileToH3Converter_init l p = (Inr (c, h), events)"
    and "read_geojson l (shapefile_filepath p) = Inr (data, h0)"
  shows "self_coordinates c = extract_coordinates h0 data \<and>
         WriteFile (output_filepath_geojson p) (model_dump_json h0 data) \<in> set events \<and>
         (file_of l (output_filepath_geojson p) \<noteq>
            file_of l (output_filepath_geojson_segmentized p) \<longrightarrow>
          file_content l events (file_of l (output_filepath_geojson p)) =
            Some (model_dump_json h0 data))"
proof -
  from ShapefileToH3Converter_init_Inr(2)[OF assms] obtain segmentized where
    ev: "events = [ReadFile (shapefile_filepath p),
                    WriteFile (output_filepath_geojson p) (model_dump_json h0 data),
                    WriteFile (output_filepath_geojson_segmentized p)
                      (model_dump_json h segmentized)]"
    by blast
  from ShapefileToH3Converter_init_Inr(1)[OF assms] ev show ?thesis
    by (simp add: file_content_two_writes)
qed

theorem init_keeps_pre_segmentation_outputs_witness:
  "ShapefileToH3Converter_init example_lib example_params =
     (Inr (example_converter example_params, example_heap_segmentized),
      [ReadFile ''data_in/National Highways.shp'',
       WriteFile ''data_out/highways.geojson'' (model_dump_json example_heap example_data),
       WriteFile ''data_out/highways_segmentized.geojson''
         (model_dump_json example_heap_segmentized example_data)]) \<and>
   read_geojson example_lib (shapefile_filepath example_params) =
     Inr (example_data, example_heap) \<and>
   file_of example_lib (output_filepath_geojson example_params) \<noteq>
     file_of example_lib (output_filepath_geojson_segmentized example_params) \<and>
   self_coordinates (example_converter example_params) =
     extract_coordinates example_heap example_data \<and>
   file_content example_lib
     [ReadFile ''data_in/National Highways.shp'',
      WriteFile ''data_out/highways.geojson'' (model_dump_json example_heap example_data),
      WriteFile ''data_out/highways_segmentized.geojson''
        (model_dump_json example_heap_segmentized example_data)]
     (file_of example_lib (output_filepath_geojson example_params)) =
     Some (model_dump_json example_heap example_data)"
proof -
  have i: "ShapefileToH3Converter_init example_lib example_params =
     (Inr (example_converter example_params, example_heap_segmentized),
      [ReadFile ''data_in/National Highways.shp'',
       WriteFile ''data_out/highways.geojson'' (model_dump_json example_heap example_data),
       WriteFile ''data_out/highways_segmentized.geojson''
         (model_dump_json example_heap_segmentized example_data)])"
    by (simp add: init_example) (simp add: example_params_def)
  have r: "read_geojson example_lib (shapefile_filepath example_params) =
     Inr (example_data, example_heap)"
    by (rule example_lib_fields)
  have d: "file_of example_lib (output_filepath_geojson example_params) \<noteq>
      file_of example_lib (output_filepath_geojson_segmentized example_params)"
    by (simp add: example_params_def example_lib_def example_file_of_def)
  from init_keeps_pre_segmentation_outputs[OF i r] i r d show ?thesis
    by blast
qed

text \<open>
  The claim C10 as it is written fails when both collections are written to one path: the
  constructor completes, and the file at \<open>output_filepath_geojson\<close> then holds the
  serialization of the segmentized collection, which differs from the one of the
  collection as ingested.
\<close>

theorem raw_file_overwritten_on_shared_path:
  "fst (ShapefileToH3Converter_init example_lib same_path_params) =
     Inr (example_converter same_path_params, example_heap_segmentized) \<and>
   read_geojson example_lib (shapefile_filepath same_path_params) =
     Inr (example_data, example_heap) \<and>
   file_content example_lib (snd (ShapefileToH3Converter_init example_lib same_path_params))
     (file_of example_lib (output_filepath_geojson same_path_params)) =
     Some (model_dump_json example_heap_segmentized example_data) \<and>
   model_dump_json example_heap_segmentized example_data \<noteq>
     model_dump_json example_heap example_data"
  by (simp add: init_example example_lib_fields example_dumps_differ)
     (simp add: same_path_params_def example_params_def)

text \<open>
  The same happens when the second path is another string for the file of the first:
  the two paths differ, and the raw file is overwritten all the same.
\<close>

lemma raw_file_overwritten_through_alias:
  "output_filepath_geojson alias_path_params \<noteq>
     output_filepath_geojson_segmentized alias_path_params \<and>
   InputParams_init alias_path_params = Inr alias_path_params \<and>
   fst (ShapefileToH3Converter_init example_lib alias_path_params) =
     Inr (example_converter alias_path_params, example_heap_segmentized) \<and>
   file_content example_lib (snd (ShapefileToH3Converter_init example_lib alias_path_params))
     (file_of example_lib (output_filepath_geojson alias_path_params)) =
     Some (model_dump_json example_heap_segmentized example_data)"
proof -
  have "InputParams_init alias_path_params = Inr alias_path_params"
    by (rule InputParams_init_valid) (simp_all add: alias_path_params_def example_params_def)
  then show ?thesis
    by (simp add: init_example)
       (simp add: alias_path_params_def example_params_def example_lib_def example_file_of_def)
qed

end
